theory Spec2Isabelle
  imports Main
begin

section \<open>Values, documents and the document store\<close>

text \<open>
  The blog backend consists of two Express routers (comments and posts) and the
  \<open>createAdmin\<close> script, all working on a MongoDB store through Mongoose models.
  A JavaScript string is modelled as a \<open>string\<close>, one element per code unit (the
  code units below 256, which is what a \<open>char\<close> holds), so that \<open>length\<close> is the
  string's \<open>length\<close> and \<open>substring\<close> counts the same units.

  An ObjectId is identified with its 24-digit hexadecimal text in lower case, which is
  what \<open>toString()\<close> returns; two ids are equal exactly when their texts are.
\<close>

datatype objectId = ObjectId string

fun toString :: "objectId \<Rightarrow> string" where
  "toString (ObjectId h) = h"

text \<open>
  The cast of a request string to an ObjectId, which \<open>findById\<close>, \<open>find\<close> and
  \<open>findByIdAndDelete\<close> apply to their argument: a string of 24 hexadecimal digits, in
  either case, is the id with the lower-case text; on any other string the cast throws
  (a CastError), which the handler's \<open>catch\<close> turns into status 500. (Drivers before
  bson 5 also took a 12-byte string for an id; the theorems below speak of the strings
  this cast accepts.)
\<close>

definition isHexDigit :: "char \<Rightarrow> bool" where
  "isHexDigit c = (c \<in> set ''0123456789abcdefABCDEF'')"

definition lowerHex :: "char \<Rightarrow> char" where
  "lowerHex c =
     (if c = CHR ''A'' then CHR ''a'' else if c = CHR ''B'' then CHR ''b''
      else if c = CHR ''C'' then CHR ''c'' else if c = CHR ''D'' then CHR ''d''
      else if c = CHR ''E'' then CHR ''e'' else if c = CHR ''F'' then CHR ''f'' else c)"

definition castObjectId :: "string \<Rightarrow> objectId option" where
  "castObjectId s =
     (if length s = 24 \<and> list_all isHexDigit s then Some (ObjectId (map lowerHex s)) else None)"

text \<open>
  Modelled from the spec: the User schema (models/User.js is not among the sources).
  A user has a username, an email, a password (hashed outside this code) and a role.
\<close>

record user =
  user_id :: objectId
  u_username :: string
  u_email :: string
  u_password :: string
  u_role :: string

text \<open>
  Modelled from the spec: the Post schema (models/Post.js is not among the sources):
  title, content, an image reference, the owning author, the denormalised author name
  and the two timestamps. The fields are the ones the posts router reads and writes.
\<close>

record post =
  post_id :: objectId
  p_title :: string
  p_content :: string
  p_image :: string
  p_author :: objectId
  p_authorName :: string
  p_createdAt :: nat
  p_updatedAt :: nat

text \<open>The Comment schema of models/Comment.js, with \<open>timestamps: true\<close>.\<close>

record comment =
  comment_id :: objectId
  c_content :: string
  c_post :: objectId
  c_author :: objectId
  c_authorName :: string
  c_createdAt :: nat
  c_updatedAt :: nat

text \<open>
  The store: one collection per model, in the store's natural order. A collection is a
  list, since \<open>find\<close> returns every document and \<open>findOne\<close> returns the first match.
\<close>

record db =
  users :: "user list"
  posts :: "post list"
  comments :: "comment list"

text \<open>What a handler sends: the status code and the JSON body.\<close>

datatype json =
    JNull
  | JStr string
  | JNum nat
  | JId objectId
  | JObj "(string \<times> json) list"
  | JArr "json list"

datatype response = Response nat json

definition message :: "string \<Rightarrow> json" where
  "message m = JObj [(''message'', JStr m)]"

text \<open>Reading a property of a JSON object; \<open>None\<close> when the object has no such key.\<close>

fun getField :: "string \<Rightarrow> json \<Rightarrow> json option" where
  "getField k (JObj kvs) = map_of kvs k"
| "getField k _ = None"

text \<open>The elements of the array a handler sent (none when the body is no array).\<close>

fun entries :: "response \<Rightarrow> json list" where
  "entries (Response s (JArr js)) = js"
| "entries (Response s b) = []"

section \<open>JavaScript and Mongoose primitives\<close>

text \<open>
  A request field is absent (\<open>undefined\<close>) or a string. \<open>!x\<close> is true for
  \<open>undefined\<close> and for the empty string.
\<close>

fun truthy :: "string option \<Rightarrow> bool" where
  "truthy None = False"
| "truthy (Some s) = (s \<noteq> [])"

text \<open>
  \<open>s.replace(pat, rep)\<close> with a string pattern: the first occurrence of \<open>pat\<close> in
  \<open>s\<close>, wherever it stands, is replaced; \<open>s\<close> is returned as it is when there is none.
  The replacement is taken literally (the source replaces by the empty string).
\<close>

fun replace :: "string \<Rightarrow> string \<Rightarrow> string \<Rightarrow> string" where
  "replace pat rep [] = (if pat = [] then rep else [])"
| "replace pat rep (c # cs) =
     (if take (length pat) (c # cs) = pat then rep @ drop (length pat) (c # cs)
      else c # replace pat rep cs)"

text \<open>
  \<open>s.substring(a, b)\<close>: both indices are clamped to the length and swapped when
  \<open>a > b\<close>.
\<close>

definition substring :: "nat \<Rightarrow> nat \<Rightarrow> string \<Rightarrow> string" where
  "substring a b s =
     (let a' = min a (length s); b' = min b (length s)
      in take (max a' b' - min a' b') (drop (min a' b') s))"

text \<open>
  \<open>String.prototype.trim\<close>, which \<open>trim: true\<close> of the Comment schema applies to
  \<open>content\<close> when it is set: white space and line terminators are removed at both ends.
\<close>

definition isSpace :: "char \<Rightarrow> bool" where
  "isSpace c = (of_char c \<in> {9, 10, 11, 12, 13, 32, 160 :: nat})"

definition trim :: "string \<Rightarrow> string" where
  "trim s = rev (dropWhile isSpace (rev (dropWhile isSpace s)))"

text \<open>
  \<open>findById\<close> and \<open>findOne\<close> return the first matching document (\<open>List.find\<close>);
  \<open>save\<close> of a loaded document rewrites the document with its id, and
  \<open>findByIdAndDelete\<close> removes it.
\<close>

fun updateFirst :: "('a \<Rightarrow> bool) \<Rightarrow> ('a \<Rightarrow> 'a) \<Rightarrow> 'a list \<Rightarrow> 'a list" where
  "updateFirst P f [] = []"
| "updateFirst P f (x # xs) = (if P x then f x # xs else x # updateFirst P f xs)"

fun deleteFirst :: "('a \<Rightarrow> bool) \<Rightarrow> 'a list \<Rightarrow> 'a list" where
  "deleteFirst P [] = []"
| "deleteFirst P (x # xs) = (if P x then xs else x # deleteFirst P xs)"

definition findPost :: "objectId \<Rightarrow> db \<Rightarrow> post option" where
  "findPost i d = find (\<lambda>p. post_id p = i) (posts d)"

definition findComment :: "objectId \<Rightarrow> db \<Rightarrow> comment option" where
  "findComment i d = find (\<lambda>c. comment_id c = i) (comments d)"

text \<open>
  \<open>populate('author', 'username')\<close>: the author reference is replaced by the
  referenced user's \<open>_id\<close> and \<open>username\<close>, or by \<open>null\<close> when no such user exists.
\<close>

definition populateAuthor :: "user list \<Rightarrow> objectId \<Rightarrow> json" where
  "populateAuthor us a =
     (case find (\<lambda>u. user_id u = a) us of
        None \<Rightarrow> JNull
      | Some u \<Rightarrow> JObj [(''_id'', JId (user_id u)), (''username'', JStr (u_username u))])"

text \<open>
  The JSON of a post document as stored, of a post with its author populated, and of a
  comment with its author populated: the paths of the schema (the version key is left out).
\<close>

definition postJson :: "post \<Rightarrow> json" where
  "postJson p = JObj
     [(''_id'', JId (post_id p)), (''title'', JStr (p_title p)),
      (''content'', JStr (p_content p)), (''image'', JStr (p_image p)),
      (''author'', JId (p_author p)), (''authorName'', JStr (p_authorName p)),
      (''createdAt'', JNum (p_createdAt p)), (''updatedAt'', JNum (p_updatedAt p))]"

definition populatedPostJson :: "user list \<Rightarrow> post \<Rightarrow> json" where
  "populatedPostJson us p = JObj
     [(''_id'', JId (post_id p)), (''title'', JStr (p_title p)),
      (''content'', JStr (p_content p)), (''image'', JStr (p_image p)),
      (''author'', populateAuthor us (p_author p)), (''authorName'', JStr (p_authorName p)),
      (''createdAt'', JNum (p_createdAt p)), (''updatedAt'', JNum (p_updatedAt p))]"

definition commentJson :: "user list \<Rightarrow> comment \<Rightarrow> json" where
  "commentJson us c = JObj
     [(''_id'', JId (comment_id c)), (''content'', JStr (c_content c)),
      (''post'', JId (c_post c)), (''author'', populateAuthor us (c_author c)),
      (''authorName'', JStr (c_authorName c)),
      (''createdAt'', JNum (c_createdAt c)), (''updatedAt'', JNum (c_updatedAt c))]"

text \<open>
  \<open>required: true\<close> on a String path rejects the empty string; \<open>content\<close> has been
  trimmed by then. A document that fails validation is not written and \<open>save\<close> throws.
\<close>

definition validComment :: "comment \<Rightarrow> bool" where
  "validComment c = (c_content c \<noteq> [] \<and> c_authorName c \<noteq> [])"

section \<open>The posts router\<close>

text \<open>
  \<open>GET /\<close>. The handler reads the Authorization header itself (the route has no
  \<open>authenticate\<close> middleware): \<open>token\<close> is the header with the first
  \<open>'Bearer '\<close> removed, and \<open>isAuthenticated = !!token\<close>. The posts are sorted by
  \<open>createdAt\<close>, newest first.
\<close>

definition isAuthenticated :: "string option \<Rightarrow> bool" where
  "isAuthenticated authorization = truthy (map_option (replace ''Bearer '' '''') authorization)"

definition postsData :: "bool \<Rightarrow> user list \<Rightarrow> post \<Rightarrow> json" where
  "postsData authenticated us p =
     (if authenticated then JObj
        [(''_id'', JId (post_id p)), (''title'', JStr (p_title p)),
         (''content'', JStr (p_content p)), (''image'', JStr (p_image p)),
         (''author'', populateAuthor us (p_author p)),
         (''authorName'', JStr (p_authorName p)),
         (''createdAt'', JNum (p_createdAt p)), (''updatedAt'', JNum (p_updatedAt p))]
      else JObj
        [(''_id'', JId (post_id p)), (''title'', JStr (p_title p)),
         (''content'', JStr (substring 0 150 (p_content p) @ ''...'')),
         (''image'', JStr (p_image p)),
         (''authorName'', JStr (p_authorName p)),
         (''createdAt'', JNum (p_createdAt p)), (''updatedAt'', JNum (p_updatedAt p))])"

definition newestFirst :: "post list \<Rightarrow> post list" where
  "newestFirst ps = rev (sort_key p_createdAt ps)"

definition listPosts :: "string option \<Rightarrow> db \<Rightarrow> response" where
  "listPosts authorization d =
     Response 200 (JArr (map (postsData (isAuthenticated authorization) (users d))
                             (newestFirst (posts d))))"

text \<open>
  The guarded routes run behind \<open>authenticate\<close>, which sets \<open>req.user\<close>; the handlers
  below take that user as \<open>actor\<close>. Path and body fields arrive as strings
  (\<open>ident\<close> is \<open>req.params.id\<close>). Fresh
  ObjectIds and the clock come from the driver and the system, so a creating handler is
  given \<open>newId\<close> and \<open>now\<close>. Store calls are total on the in-memory store; the
  \<open>catch\<close> branches are reached where the cast of an id throws and where a schema in
  the sources rejects a document.
\<close>

text \<open>\<open>GET /:id\<close> of the posts router.\<close>

definition getPost :: "user \<Rightarrow> string \<Rightarrow> db \<Rightarrow> response" where
  "getPost actor ident d =
     (case castObjectId ident of
        None \<Rightarrow> Response 500 (message ''Error fetching post'')
      | Some i \<Rightarrow>
          (case findPost i d of
             None \<Rightarrow> Response 404 (message ''Post not found'')
           | Some p \<Rightarrow> Response 200 (populatedPostJson (users d) p)))"

text \<open>
  \<open>POST /\<close> of the posts router. \<open>file\<close> is \<open>req.file.filename\<close> when the upload
  middleware stored an image.
\<close>

definition createPost ::
  "user \<Rightarrow> string option \<Rightarrow> string option \<Rightarrow> string option \<Rightarrow> objectId \<Rightarrow> nat \<Rightarrow> db
   \<Rightarrow> response \<times> db" where
  "createPost actor title content file newId now d =
     (if \<not> truthy title \<or> \<not> truthy content
      then (Response 400 (message ''Title and content are required''), d)
      else
        let image = (case file of Some filename \<Rightarrow> ''/uploads/'' @ filename | None \<Rightarrow> []);
            p = \<lparr>post_id = newId, p_title = the title, p_content = the content,
                 p_image = image, p_author = user_id actor,
                 p_authorName = u_username actor, p_createdAt = now, p_updatedAt = now\<rparr>
        in (Response 201 (postJson p), d\<lparr>posts := posts d @ [p]\<rparr>))"

text \<open>
  \<open>PUT /:id\<close> of the posts router. \<open>save\<close> sets \<open>updatedAt\<close> when a path of the
  document was modified.
\<close>

definition updatePost ::
  "user \<Rightarrow> string \<Rightarrow> string option \<Rightarrow> string option \<Rightarrow> string option \<Rightarrow> nat \<Rightarrow> db
   \<Rightarrow> response \<times> db" where
  "updatePost actor ident title content file now d =
     (case castObjectId ident of
        None \<Rightarrow> (Response 500 (message ''Error updating post''), d)
      | Some i \<Rightarrow>
     (case findPost i d of
        None \<Rightarrow> (Response 404 (message ''Post not found''), d)
      | Some p \<Rightarrow>
          let isOwner = (toString (p_author p) = toString (user_id actor));
              isUserAdmin = (u_role actor = ''admin'')
          in if \<not> isOwner \<and> \<not> isUserAdmin
             then (Response 403 (message ''You can only edit your own posts''), d)
             else
               let p1 = (if truthy title then p\<lparr>p_title := the title\<rparr> else p);
                   p2 = (if truthy content then p1\<lparr>p_content := the content\<rparr> else p1);
                   p3 = (case file of
                           Some filename \<Rightarrow> p2\<lparr>p_image := ''/uploads/'' @ filename\<rparr>
                         | None \<Rightarrow> p2);
                   saved = (if p3 = p then p else p3\<lparr>p_updatedAt := now\<rparr>)
               in (Response 200 (postJson saved),
                   d\<lparr>posts := updateFirst (\<lambda>q. post_id q = post_id p) (\<lambda>q. saved) (posts d)\<rparr>)))"

text \<open>\<open>DELETE /:id\<close> of the posts router.\<close>

definition deletePost :: "user \<Rightarrow> string \<Rightarrow> db \<Rightarrow> response \<times> db" where
  "deletePost actor ident d =
     (case castObjectId ident of
        None \<Rightarrow> (Response 500 (message ''Error deleting post''), d)
      | Some i \<Rightarrow>
     (case findPost i d of
        None \<Rightarrow> (Response 404 (message ''Post not found''), d)
      | Some p \<Rightarrow>
          let isOwner = (toString (p_author p) = toString (user_id actor));
              isUserAdmin = (u_role actor = ''admin'')
          in if \<not> isOwner \<and> \<not> isUserAdmin
             then (Response 403 (message ''You can only delete your own posts''), d)
             else (Response 200 (message ''Post deleted successfully''),
                   d\<lparr>posts := deleteFirst (\<lambda>q. post_id q = i) (posts d)\<rparr>)))"

section \<open>The comments router\<close>

text \<open>\<open>GET /post/:postId\<close>: the comments of one post, newest first, authors populated.\<close>

definition listComments :: "string \<Rightarrow> db \<Rightarrow> response" where
  "listComments postId d =
     (case castObjectId postId of
        None \<Rightarrow> Response 500 (message ''Error fetching comments'')
      | Some i \<Rightarrow>
          Response 200 (JArr (map (commentJson (users d))
            (rev (sort_key c_createdAt (filter (\<lambda>c. c_post c = i) (comments d)))))))"

text \<open>
  \<open>POST /\<close> of the comments router: the field check, then the lookup of the post
  (which casts \<open>postId\<close>), then the new document, which \<open>save\<close> validates against
  the schema.
\<close>

definition createComment ::
  "user \<Rightarrow> string option \<Rightarrow> string option \<Rightarrow> objectId \<Rightarrow> nat \<Rightarrow> db \<Rightarrow> response \<times> db" where
  "createComment actor content postId newId now d =
     (if \<not> truthy content \<or> \<not> truthy postId
      then (Response 400 (message ''Content and post ID are required''), d)
      else
        (case castObjectId (the postId) of
           None \<Rightarrow> (Response 500 (message ''Error creating comment''), d)
         | Some i \<Rightarrow>
        (case findPost i d of
           None \<Rightarrow> (Response 404 (message ''Post not found''), d)
         | Some p \<Rightarrow>
             let c = \<lparr>comment_id = newId, c_content = trim (the content),
                      c_post = i, c_author = user_id actor,
                      c_authorName = u_username actor, c_createdAt = now, c_updatedAt = now\<rparr>
             in if \<not> validComment c
                then (Response 500 (message ''Error creating comment''), d)
                else (Response 201 (commentJson (users d) c),
                      d\<lparr>comments := comments d @ [c]\<rparr>))))"

text \<open>
  \<open>PUT /:id\<close> of the comments router. Only the ownership test guards the edit; an
  absent \<open>content\<close> sets the path to \<open>undefined\<close>, which \<open>required\<close> rejects like the
  empty string.
\<close>

definition updateComment ::
  "user \<Rightarrow> string \<Rightarrow> string option \<Rightarrow> nat \<Rightarrow> db \<Rightarrow> response \<times> db" where
  "updateComment actor ident content now d =
     (case castObjectId ident of
        None \<Rightarrow> (Response 500 (message ''Error updating comment''), d)
      | Some i \<Rightarrow>
     (case findComment i d of
        None \<Rightarrow> (Response 404 (message ''Comment not found''), d)
      | Some c \<Rightarrow>
          if toString (c_author c) \<noteq> toString (user_id actor)
          then (Response 403 (message ''You can only edit your own comments''), d)
          else
            let c1 = c\<lparr>c_content := (case content of None \<Rightarrow> [] | Some s \<Rightarrow> trim s)\<rparr>
            in if \<not> validComment c1
               then (Response 500 (message ''Error updating comment''), d)
               else
                 let saved = (if c1 = c then c else c1\<lparr>c_updatedAt := now\<rparr>)
                 in (Response 200 (commentJson (users d) saved),
                     d\<lparr>comments :=
                         updateFirst (\<lambda>q. comment_id q = comment_id c) (\<lambda>q. saved) (comments d)\<rparr>)))"

text \<open>\<open>DELETE /:id\<close> of the comments router: the owner or an admin.\<close>

definition deleteComment :: "user \<Rightarrow> string \<Rightarrow> db \<Rightarrow> response \<times> db" where
  "deleteComment actor ident d =
     (case castObjectId ident of
        None \<Rightarrow> (Response 500 (message ''Error deleting comment''), d)
      | Some i \<Rightarrow>
     (case findComment i d of
        None \<Rightarrow> (Response 404 (message ''Comment not found''), d)
      | Some c \<Rightarrow>
          let isOwner = (toString (c_author c) = toString (user_id actor));
              isAdmin = (u_role actor = ''admin'')
          in if \<not> isOwner \<and> \<not> isAdmin
             then (Response 403 (message ''Access denied''), d)
             else (Response 200 (message ''Comment deleted successfully''),
                   d\<lparr>comments := deleteFirst (\<lambda>q. comment_id q = i) (comments d)\<rparr>)))"

section \<open>The admin bootstrap script\<close>

text \<open>
  \<open>createAdmin\<close> reads email, username and password from \<open>process.argv\<close> and ends the
  process with status 0 or 1; the model returns that status and the store it leaves. The
  connection and the writes are taken to succeed. How the missing User model stores a
  password is the parameter \<open>hashPassword\<close>; promoting an existing user modifies the
  role only.
\<close>

definition sameIdentity :: "string \<Rightarrow> string \<Rightarrow> user \<Rightarrow> bool" where
  "sameIdentity email username u = (u_email u = email \<or> u_username u = username)"

definition createAdmin ::
  "(string \<Rightarrow> string) \<Rightarrow> string option \<Rightarrow> string option \<Rightarrow> string option \<Rightarrow> objectId \<Rightarrow> db
   \<Rightarrow> nat \<times> db" where
  "createAdmin hashPassword email username password newId d =
     (if \<not> truthy email \<or> \<not> truthy username \<or> \<not> truthy password then (1, d)
      else
        (case find (sameIdentity (the email) (the username)) (users d) of
           Some existingUser \<Rightarrow>
             if u_role existingUser = ''admin'' then (0, d)
             else (0, d\<lparr>users := updateFirst (\<lambda>u. user_id u = user_id existingUser)
                                      (\<lambda>u. existingUser\<lparr>u_role := ''admin''\<rparr>) (users d)\<rparr>)
         | None \<Rightarrow>
             (0, d\<lparr>users := users d @
                   [\<lparr>user_id = newId, u_username = the username, u_email = the email,
                     u_password = hashPassword (the password), u_role = ''admin''\<rparr>]\<rparr>)))"

section \<open>The service as a whole\<close>

text \<open>
  One constructor per route of the two routers, and one for the bootstrap script;
  \<open>step\<close> is the store an operation leaves.
\<close>

datatype operation =
    ListComments string
  | CreateComment user "string option" "string option" objectId nat
  | UpdateComment user string "string option" nat
  | DeleteComment user string
  | ListPosts "string option"
  | GetPost user string
  | CreatePost user "string option" "string option" "string option" objectId nat
  | UpdatePost user string "string option" "string option" "string option" nat
  | DeletePost user string
  | CreateAdmin "string option" "string option" "string option" objectId

fun step :: "(string \<Rightarrow> string) \<Rightarrow> operation \<Rightarrow> db \<Rightarrow> db" where
  "step h (ListComments postId) d = d"
| "step h (CreateComment actor content postId newId now) d =
     snd (createComment actor content postId newId now d)"
| "step h (UpdateComment actor ident content now) d = snd (updateComment actor ident content now d)"
| "step h (DeleteComment actor ident) d = snd (deleteComment actor ident d)"
| "step h (ListPosts authorization) d = d"
| "step h (GetPost actor ident) d = d"
| "step h (CreatePost actor title content file newId now) d =
     snd (createPost actor title content file newId now d)"
| "step h (UpdatePost actor ident title content file now) d =
     snd (updatePost actor ident title content file now d)"
| "step h (DeletePost actor ident) d = snd (deletePost actor ident d)"
| "step h (CreateAdmin email username password newId) d =
     snd (createAdmin h email username password newId d)"

section \<open>Example data\<close>

text \<open>
  A small store used to run the handlers on concrete requests: two ordinary users, one
  admin, a short and a long post by alice, and a comment by bob.
\<close>

definition alice :: user where
  "alice = \<lparr>user_id = ObjectId ''650000000000000000000a01'', u_username = ''alice'',
            u_email = ''alice@example.org'', u_password = ''pw-a'', u_role = ''user''\<rparr>"

definition bob :: user where
  "bob = \<lparr>user_id = ObjectId ''650000000000000000000a02'', u_username = ''bob'',
          u_email = ''bob@example.org'', u_password = ''pw-b'', u_role = ''user''\<rparr>"

definition carol :: user where
  "carol = \<lparr>user_id = ObjectId ''650000000000000000000a03'', u_username = ''carol'',
            u_email = ''carol@example.org'', u_password = ''pw-c'', u_role = ''admin''\<rparr>"

definition hiWorld :: post where
  "hiWorld = \<lparr>post_id = ObjectId ''650000000000000000000b01'', p_title = ''Hi'',
              p_content = ''World'', p_image = [],
              p_author = ObjectId ''650000000000000000000a01'',
              p_authorName = ''alice'', p_createdAt = 10, p_updatedAt = 10\<rparr>"

definition longPost :: post where
  "longPost = \<lparr>post_id = ObjectId ''650000000000000000000b02'', p_title = ''Long'',
               p_content = replicate 200 CHR ''a'', p_image = [],
               p_author = ObjectId ''650000000000000000000a01'',
               p_authorName = ''alice'', p_createdAt = 20, p_updatedAt = 20\<rparr>"

definition bobsComment :: comment where
  "bobsComment = \<lparr>comment_id = ObjectId ''650000000000000000000c01'', c_content = ''Nice'',
                  c_post = ObjectId ''650000000000000000000b01'',
                  c_author = ObjectId ''650000000000000000000a02'',
                  c_authorName = ''bob'', c_createdAt = 30, c_updatedAt = 30\<rparr>"

definition blog :: db where
  "blog = \<lparr>users = [alice, bob, carol], posts = [hiWorld, longPost], comments = [bobsComment]\<rparr>"

text \<open>The same posts in a store without any user: no credential resolves to a live user.\<close>

definition blogWithoutUsers :: db where
  "blogWithoutUsers = \<lparr>users = [], posts = [hiWorld, longPost], comments = []\<rparr>"

text \<open>A stand-in for the way the User model stores a password.\<close>

definition exampleHash :: "string \<Rightarrow> string" where
  "exampleHash pw = ''#'' @ pw"

section \<open>Facts about the primitives\<close>

lemma substring_0: "substring 0 n s = take n s"
  by (simp add: substring_def Let_def min_def)

lemma replace_at_front: "replace pat rep (pat @ t) = rep @ t"
proof (cases "pat @ t")
  case Nil
  then show ?thesis by simp
next
  case (Cons c cs)
  have "take (length pat) (c # cs) = pat" "drop (length pat) (c # cs) = t"
    using Cons by (metis append_eq_conv_conj)+
  then show ?thesis using Cons by simp
qed

lemma isAuthenticated_bearer: "isAuthenticated (Some (''Bearer '' @ t)) = (t \<noteq> [])"
  unfolding isAuthenticated_def using replace_at_front[of "''Bearer ''" "[]" t] by simp

lemma isAuthenticated_None: "\<not> isAuthenticated None"
  by (simp add: isAuthenticated_def)

lemma length_newestFirst: "length (newestFirst ps) = length ps"
  by (simp add: newestFirst_def)

lemma set_newestFirst: "set (newestFirst ps) = set ps"
  by (simp add: newestFirst_def)


lemma postsData_full:
  "getField ''content'' (postsData True us p) = Some (JStr (p_content p))"
  "getField ''author'' (postsData True us p) = Some (populateAuthor us (p_author p))"
  "getField ''_id'' (postsData True us p) = Some (JId (post_id p))"
  by (simp_all add: postsData_def)

lemma postsData_limited:
  "getField ''content'' (postsData False us p) = Some (JStr (take 150 (p_content p) @ ''...''))"
  "getField ''author'' (postsData False us p) = None"
  "getField ''_id'' (postsData False us p) = Some (JId (post_id p))"
  by (simp_all add: postsData_def substring_0)

section \<open>Listing posts\<close>

lemma listPosts_shape:
  "listPosts h d = Response 200 (JArr (map (postsData (isAuthenticated h) (users d)) (newestFirst (posts d))))"
  by (simp add: listPosts_def)

lemma entries_listPosts:
  "entries (listPosts h d) = map (postsData (isAuthenticated h) (users d)) (newestFirst (posts d))"
  by (simp add: listPosts_def)

lemma listPosts_entries: "listPosts h d = Response 200 (JArr (entries (listPosts h d)))"
  by (simp add: listPosts_def)

lemma newestFirst_blog: "newestFirst [hiWorld, longPost] = [longPost, hiWorld]"
  by (simp add: newestFirst_def hiWorld_def longPost_def)

lemma replace_by_empty_iff:
  "pat \<noteq> [] \<Longrightarrow> replace pat [] s = [] \<longleftrightarrow> s = [] \<or> s = pat"
proof (induction s)
  case Nil
  then show ?case by simp
next
  case (Cons c cs)
  show ?case
  proof (cases "take (length pat) (c # cs) = pat")
    case True
    then have "c # cs = pat @ drop (length pat) (c # cs)"
      by (metis append_take_drop_id)
    then show ?thesis using True by (metis append_Nil2 list.discI replace.simps(2) self_append_conv)
  next
    case False
    then have "c # cs \<noteq> pat" by auto
    then show ?thesis using False by simp
  qed
qed

lemma isAuthenticated_iff:
  "isAuthenticated h \<longleftrightarrow> h \<noteq> None \<and> h \<noteq> Some [] \<and> h \<noteq> Some ''Bearer ''"
proof (cases h)
  case None
  then show ?thesis by (simp add: isAuthenticated_def)
next
  case (Some s)
  have "replace ''Bearer '' [] s = [] \<longleftrightarrow> s = [] \<or> s = ''Bearer ''"
    by (rule replace_by_empty_iff) simp
  then show ?thesis using Some by (auto simp add: isAuthenticated_def)
qed

text \<open>
  Claim C10. What \<open>GET /posts\<close> shows is decided by the Authorization header alone,
  and only by whether it leaves a non-empty token: a request counts as authenticated
  exactly when it has a header that is neither empty nor the bare \<open>Bearer \<close> prefix, so
  every \<open>Bearer t\<close> with a non-empty \<open>t\<close> counts, whatever \<open>t\<close> is and whatever
  users the store holds; two requests that agree on that get the same answer from the
  same store; a request that counts as authenticated gets, for every post, the full
  content and the author field, and every other request gets the first 150 characters
  with the marker and no author field.
\<close>

theorem listPosts_decided_by_token_presence:
  "(isAuthenticated h \<longleftrightarrow> h \<noteq> None \<and> h \<noteq> Some [] \<and> h \<noteq> Some ''Bearer '')
   \<and> (t \<noteq> [] \<longrightarrow> isAuthenticated (Some (''Bearer '' @ t)))
   \<and> (isAuthenticated h = isAuthenticated h' \<longrightarrow> listPosts h d = listPosts h' d)
   \<and> listPosts h d = Response 200 (JArr (entries (listPosts h d)))
   \<and> length (entries (listPosts h d)) = length (posts d)
   \<and> (\<forall>i < length (posts d).
         getField ''_id'' (entries (listPosts h d) ! i)
           = Some (JId (post_id (newestFirst (posts d) ! i)))
       \<and> (isAuthenticated h \<longrightarrow>
             getField ''content'' (entries (listPosts h d) ! i)
               = Some (JStr (p_content (newestFirst (posts d) ! i)))
           \<and> getField ''author'' (entries (listPosts h d) ! i)
               = Some (populateAuthor (users d) (p_author (newestFirst (posts d) ! i))))
       \<and> (\<not> isAuthenticated h \<longrightarrow>
             getField ''content'' (entries (listPosts h d) ! i)
               = Some (JStr (take 150 (p_content (newestFirst (posts d) ! i)) @ ''...''))
           \<and> getField ''author'' (entries (listPosts h d) ! i) = None))"
proof (intro conjI impI allI)
  show "isAuthenticated h \<longleftrightarrow> h \<noteq> None \<and> h \<noteq> Some [] \<and> h \<noteq> Some ''Bearer ''"
    by (rule isAuthenticated_iff)
next
  assume "t \<noteq> []"
  then show "isAuthenticated (Some (''Bearer '' @ t))" using isAuthenticated_bearer[of t] by blast
next
  assume "isAuthenticated h = isAuthenticated h'"
  then show "listPosts h d = listPosts h' d" by (simp add: listPosts_shape)
next
  show "listPosts h d = Response 200 (JArr (entries (listPosts h d)))" by (rule listPosts_entries)
next
  show "length (entries (listPosts h d)) = length (posts d)"
    by (simp add: entries_listPosts length_newestFirst)
next
  fix i assume "i < length (posts d)"
  then show "getField ''_id'' (entries (listPosts h d) ! i)
             = Some (JId (post_id (newestFirst (posts d) ! i)))"
    by (cases "isAuthenticated h")
       (simp_all add: entries_listPosts length_newestFirst postsData_full postsData_limited)
next
  fix i assume "i < length (posts d)" "isAuthenticated h"
  then show "getField ''content'' (entries (listPosts h d) ! i)
             = Some (JStr (p_content (newestFirst (posts d) ! i)))"
    by (simp add: entries_listPosts length_newestFirst postsData_full)
next
  fix i assume "i < length (posts d)" "isAuthenticated h"
  then show "getField ''author'' (entries (listPosts h d) ! i)
             = Some (populateAuthor (users d) (p_author (newestFirst (posts d) ! i)))"
    by (simp add: entries_listPosts length_newestFirst postsData_full)
next
  fix i assume "i < length (posts d)" "\<not> isAuthenticated h"
  then show "getField ''content'' (entries (listPosts h d) ! i)
             = Some (JStr (take 150 (p_content (newestFirst (posts d) ! i)) @ ''...''))"
    by (simp add: entries_listPosts length_newestFirst postsData_limited)
next
  fix i assume "i < length (posts d)" "\<not> isAuthenticated h"
  then show "getField ''author'' (entries (listPosts h d) ! i) = None"
    by (simp add: entries_listPosts length_newestFirst postsData_limited)
qed

theorem listPosts_decided_by_token_presence_witness:
  "isAuthenticated (Some ''Bearer forged'') \<and> isAuthenticated (Some ''Basic Zm9v'')
   \<and> \<not> isAuthenticated None \<and> \<not> isAuthenticated (Some []) \<and> \<not> isAuthenticated (Some ''Bearer '')
   \<and> listPosts (Some ''Bearer forged'') blog = listPosts (Some ''Basic Zm9v'') blog
   \<and> getField ''content'' (entries (listPosts (Some ''Bearer forged'') blog) ! 0)
       = Some (JStr (replicate 200 CHR ''a''))
   \<and> getField ''author'' (entries (listPosts (Some ''Bearer forged'') blog) ! 0)
       = Some (JObj [(''_id'', JId (ObjectId ''650000000000000000000a01'')),
                     (''username'', JStr ''alice'')])
   \<and> users blogWithoutUsers = []
   \<and> getField ''content'' (entries (listPosts (Some ''Bearer forged'') blogWithoutUsers) ! 0)
       = Some (JStr (replicate 200 CHR ''a''))
   \<and> getField ''author'' (entries (listPosts (Some ''Bearer forged'') blogWithoutUsers) ! 0)
       = Some JNull
   \<and> length (entries (listPosts None blog)) = 2
   \<and> getField ''content'' (entries (listPosts None blog) ! 0)
       = Some (JStr (replicate 150 CHR ''a'' @ ''...''))
   \<and> getField ''author'' (entries (listPosts None blog) ! 0) = None
   \<and> getField ''content'' (entries (listPosts (Some ''Bearer '') blog) ! 1)
       = Some (JStr ''World...'')
   \<and> getField ''author'' (entries (listPosts (Some ''Bearer '') blog) ! 1) = None"
proof -
  note T1 = listPosts_decided_by_token_presence
    [of "Some ''Bearer forged''" "''forged''" "Some ''Basic Zm9v''" blog]
  note T2 = listPosts_decided_by_token_presence
    [of "Some ''Bearer forged''" "''forged''" "Some ''Basic Zm9v''" blogWithoutUsers]
  note T3 = listPosts_decided_by_token_presence [of None "''forged''" None blog]
  note T4 = listPosts_decided_by_token_presence [of "Some []" "''forged''" None blog]
  note T5 = listPosts_decided_by_token_presence [of "Some ''Bearer ''" "''forged''" None blog]
  note T6 = listPosts_decided_by_token_presence [of "Some ''Basic Zm9v''" "''forged''" None blog]
  have ne: "''forged'' \<noteq> []" by simp
  from T1 ne have a1: "isAuthenticated (Some ''Bearer forged'')" by simp
  from T6 have a2: "isAuthenticated (Some ''Basic Zm9v'')" by simp
  from T3 have n1: "\<not> isAuthenticated None" by simp
  from T4 have n2: "\<not> isAuthenticated (Some [])" by simp
  from T5 have n3: "\<not> isAuthenticated (Some ''Bearer '')" by simp
  have d: "users blogWithoutUsers = []" "posts blogWithoutUsers = [hiWorld, longPost]"
    "posts blog = [hiWorld, longPost]" "users blog = [alice, bob, carol]"
    by (simp_all add: blogWithoutUsers_def blog_def)
  have nf: "newestFirst (posts blog) ! 0 = longPost" "newestFirst (posts blog) ! 1 = hiWorld"
    "newestFirst (posts blogWithoutUsers) ! 0 = longPost"
    unfolding d newestFirst_blog by simp_all
  have i0: "0 < length (posts blog)" "1 < length (posts blog)"
    "0 < length (posts blogWithoutUsers)" unfolding d by simp_all
  from T1 a1 a2 have c1: "listPosts (Some ''Bearer forged'') blog
      = listPosts (Some ''Basic Zm9v'') blog" by blast
  from T1 a1 i0(1)
  have "getField ''content'' (entries (listPosts (Some ''Bearer forged'') blog) ! 0)
          = Some (JStr (p_content (newestFirst (posts blog) ! 0)))"
    and "getField ''author'' (entries (listPosts (Some ''Bearer forged'') blog) ! 0)
          = Some (populateAuthor (users blog) (p_author (newestFirst (posts blog) ! 0)))"
    by blast+
  then have c2: "getField ''content'' (entries (listPosts (Some ''Bearer forged'') blog) ! 0)
       = Some (JStr (replicate 200 CHR ''a''))"
    and c3: "getField ''author'' (entries (listPosts (Some ''Bearer forged'') blog) ! 0)
       = Some (JObj [(''_id'', JId (ObjectId ''650000000000000000000a01'')),
                     (''username'', JStr ''alice'')])"
    unfolding nf d(4) by (simp_all add: longPost_def populateAuthor_def alice_def)
  from T2 a1 i0(3)
  have "getField ''content'' (entries (listPosts (Some ''Bearer forged'') blogWithoutUsers) ! 0)
          = Some (JStr (p_content (newestFirst (posts blogWithoutUsers) ! 0)))"
    and "getField ''author'' (entries (listPosts (Some ''Bearer forged'') blogWithoutUsers) ! 0)
          = Some (populateAuthor (users blogWithoutUsers)
               (p_author (newestFirst (posts blogWithoutUsers) ! 0)))"
    by blast+
  then have c4: "getField ''content''
        (entries (listPosts (Some ''Bearer forged'') blogWithoutUsers) ! 0)
       = Some (JStr (replicate 200 CHR ''a''))"
    and c5: "getField ''author'' (entries (listPosts (Some ''Bearer forged'') blogWithoutUsers) ! 0)
       = Some JNull"
    unfolding nf d(1) by (simp_all add: longPost_def populateAuthor_def)
  from T3 have "length (entries (listPosts None blog)) = length (posts blog)" by blast
  then have c6: "length (entries (listPosts None blog)) = 2" unfolding d by simp
  from T3 n1 i0(1)
  have "getField ''content'' (entries (listPosts None blog) ! 0)
          = Some (JStr (take 150 (p_content (newestFirst (posts blog) ! 0)) @ ''...''))"
    and c8: "getField ''author'' (entries (listPosts None blog) ! 0) = None"
    by blast+
  then have c7: "getField ''content'' (entries (listPosts None blog) ! 0)
       = Some (JStr (replicate 150 CHR ''a'' @ ''...''))"
    unfolding nf by (simp add: longPost_def)
  from T5 n3 i0(2)
  have "getField ''content'' (entries (listPosts (Some ''Bearer '') blog) ! 1)
          = Some (JStr (take 150 (p_content (newestFirst (posts blog) ! 1)) @ ''...''))"
    and c10: "getField ''author'' (entries (listPosts (Some ''Bearer '') blog) ! 1) = None"
    by blast+
  then have c9: "getField ''content'' (entries (listPosts (Some ''Bearer '') blog) ! 1)
       = Some (JStr ''World...'')"
    unfolding nf by (simp add: hiWorld_def)
  from a1 a2 n1 n2 n3 c1 c2 c3 d(1) c4 c5 c6 c7 c8 c9 c10 show ?thesis by blast
qed

text \<open>
  Claim C1. Listing without an authenticated actor should show at most 153 characters of
  content and no author field. Here the store has no user at all, so the request's token
  resolves to nobody; the handler still answers with the 200 characters of the post's
  content and with an author field.
\<close>

theorem listPosts_forged_token_full_view:
  "listPosts (Some ''Bearer forged'') \<lparr>users = [], posts = [longPost], comments = []\<rparr>
     = Response 200 (JArr [JObj
         [(''_id'', JId (ObjectId ''650000000000000000000b02'')), (''title'', JStr ''Long''),
          (''content'', JStr (replicate 200 CHR ''a'')), (''image'', JStr []),
          (''author'', JNull), (''authorName'', JStr ''alice''),
          (''createdAt'', JNum 20), (''updatedAt'', JNum 20)]])
   \<and> length (replicate 200 CHR ''a'') > 153"
  by (simp add: listPosts_def isAuthenticated_def newestFirst_def postsData_def longPost_def
      populateAuthor_def)

text \<open>
  Claim C2, as stated, fails: the anonymous listing of the post with content
  \<open>World\<close> (five characters) shows \<open>World...\<close>, not the content unchanged.
\<close>

theorem listPosts_short_content_counterexample:
  "listPosts None \<lparr>users = [alice], posts = [hiWorld], comments = []\<rparr>
     = Response 200 (JArr [JObj
         [(''_id'', JId (ObjectId ''650000000000000000000b01'')), (''title'', JStr ''Hi''),
          (''content'', JStr ''World...''), (''image'', JStr []),
          (''authorName'', JStr ''alice''),
          (''createdAt'', JNum 10), (''updatedAt'', JNum 10)]])
   \<and> p_content hiWorld = ''World'' \<and> length (p_content hiWorld) < 150
   \<and> ''World...'' \<noteq> p_content hiWorld"
  by (simp add: listPosts_def isAuthenticated_def newestFirst_def postsData_def hiWorld_def
      substring_0)

lemma listPosts_without_token:
  assumes "\<not> isAuthenticated h" and "i < length (posts d)"
  shows "getField ''content'' (entries (listPosts h d) ! i)
           = Some (JStr (take 150 (p_content (newestFirst (posts d) ! i)) @ ''...''))"
    and "getField ''author'' (entries (listPosts h d) ! i) = None"
    and "getField ''_id'' (entries (listPosts h d) ! i)
           = Some (JId (post_id (newestFirst (posts d) ! i)))"
  using assms by (simp_all add: entries_listPosts length_newestFirst postsData_limited)

lemma listPosts_without_token_length:
  assumes "\<not> isAuthenticated h" and "i < length (posts d)"
  shows "\<exists>c. getField ''content'' (entries (listPosts h d) ! i) = Some (JStr c)
           \<and> length c \<le> 153"
  using listPosts_without_token(1)[OF assms] by simp

text \<open>
  Claim C2, amended. For every post whose content is shorter than 150 characters, listing
  posts on a request without a token (no Authorization header, or nothing left of it
  once \<open>Bearer \<close> is removed) returns that post's whole content followed by the
  ellipsis marker \<open>...\<close>.
\<close>

theorem listPosts_anonymous_short_content:
  assumes "\<not> isAuthenticated h"
    and "i < length (posts d)"
    and "length (p_content (newestFirst (posts d) ! i)) < 150"
  shows "listPosts h d = Response 200 (JArr (entries (listPosts h d)))
       \<and> length (entries (listPosts h d)) = length (posts d)
       \<and> getField ''_id'' (entries (listPosts h d) ! i)
           = Some (JId (post_id (newestFirst (posts d) ! i)))
       \<and> getField ''content'' (entries (listPosts h d) ! i)
           = Some (JStr (p_content (newestFirst (posts d) ! i) @ ''...''))"
  using assms listPosts_without_token[OF assms(1,2)] listPosts_entries[of h d]
  by (simp add: entries_listPosts length_newestFirst)

theorem listPosts_anonymous_short_content_witness:
  "\<not> isAuthenticated None
   \<and> (1::nat) < length (posts blog)
   \<and> newestFirst (posts blog) ! 1 = hiWorld
   \<and> length (p_content hiWorld) < 150
   \<and> getField ''_id'' (entries (listPosts None blog) ! 1) = Some (JId (post_id hiWorld))
   \<and> getField ''content'' (entries (listPosts None blog) ! 1) = Some (JStr ''World...'')"
proof -
  have h1: "\<not> isAuthenticated None" by (simp add: isAuthenticated_def)
  have h2: "1 < length (posts blog)" by (simp add: blog_def)
  have nf: "newestFirst (posts blog) ! 1 = hiWorld" by (simp add: blog_def newestFirst_blog)
  have h3: "length (p_content (newestFirst (posts blog) ! 1)) < 150"
    unfolding nf by (simp add: hiWorld_def)
  have "getField ''_id'' (entries (listPosts None blog) ! 1) = Some (JId (post_id hiWorld))"
    and "getField ''content'' (entries (listPosts None blog) ! 1) = Some (JStr ''World...'')"
    using listPosts_anonymous_short_content[OF h1 h2 h3]
    unfolding nf by (simp_all add: hiWorld_def)
  moreover have "length (p_content hiWorld) < 150" by (simp add: hiWorld_def)
  ultimately show ?thesis using h1 h2 nf by blast
qed

section \<open>The store\<close>

lemma toString_eq_iff: "toString a = toString b \<longleftrightarrow> a = b"
  by (cases a; cases b) simp

lemma find_append_first:
  "find P (xs @ ys) = (case find P xs of None \<Rightarrow> find P ys | Some x \<Rightarrow> Some x)"
  by (induction xs) auto

lemma find_key_holds: "find P xs = Some x \<Longrightarrow> P x \<and> x \<in> set xs"
  by (induction xs) (auto split: if_splits)

lemma find_updateFirst_hit:
  "find P xs = Some x \<Longrightarrow> Q x \<Longrightarrow> P y \<Longrightarrow> find P (updateFirst Q (\<lambda>_. y) xs) = Some y"
  by (induction xs) (auto split: if_splits)

lemma find_updateFirst_key_other:
  "i \<noteq> j \<Longrightarrow> k y = j \<Longrightarrow>
   find (\<lambda>x. k x = i) (updateFirst (\<lambda>x. k x = j) (\<lambda>_. y) xs) = find (\<lambda>x. k x = i) xs"
  by (induction xs) auto

lemma find_deleteFirst_key_other:
  "i \<noteq> j \<Longrightarrow> find (\<lambda>x. k x = i) (deleteFirst (\<lambda>x. k x = j) xs) = find (\<lambda>x. k x = i) xs"
  by (induction xs) auto

lemma find_key_None: "j \<notin> k ` set xs \<Longrightarrow> find (\<lambda>x. k x = j) xs = None"
  by (induction xs) auto

lemma find_deleteFirst_key_same:
  "distinct (map k xs) \<Longrightarrow> find (\<lambda>x. k x = j) (deleteFirst (\<lambda>x. k x = j) xs) = None"
  by (induction xs) (auto simp: find_key_None)

lemma length_deleteFirst:
  "find P xs = Some x \<Longrightarrow> Suc (length (deleteFirst P xs)) = length xs"
  by (induction xs) (auto split: if_splits)



lemma findComment_id: "findComment i d = Some c \<Longrightarrow> comment_id c = i"
  unfolding findComment_def by (drule find_key_holds) simp

lemma findPost_id: "findPost i d = Some p \<Longrightarrow> post_id p = i"
  unfolding findPost_def by (drule find_key_holds) simp

lemma castObjectId_nonempty: "castObjectId s = Some i \<Longrightarrow> s \<noteq> []"
  by (auto simp add: castObjectId_def split: if_splits)

lemma cast_blog:
  "castObjectId ''650000000000000000000c01'' = Some (ObjectId ''650000000000000000000c01'')"
  "castObjectId ''650000000000000000000C01'' = Some (ObjectId ''650000000000000000000c01'')"
  "castObjectId ''650000000000000000000cff'' = Some (ObjectId ''650000000000000000000cff'')"
  "castObjectId ''650000000000000000000b01'' = Some (ObjectId ''650000000000000000000b01'')"
  "castObjectId ''650000000000000000000bff'' = Some (ObjectId ''650000000000000000000bff'')"
  "castObjectId ''650000000000000000000BFF'' = Some (ObjectId ''650000000000000000000bff'')"
  "castObjectId ''650000000000000000000b02'' = Some (ObjectId ''650000000000000000000b02'')"
  "castObjectId ''nope'' = None"
  by (simp_all add: castObjectId_def isHexDigit_def lowerHex_def)

lemma findComment_blog:
  "findComment (ObjectId ''650000000000000000000c01'') blog = Some bobsComment"
  "findComment (ObjectId ''650000000000000000000cff'') blog = None"
  by (simp_all add: findComment_def blog_def bobsComment_def)

lemma findPost_blog:
  "findPost (ObjectId ''650000000000000000000b01'') blog = Some hiWorld"
  "findPost (ObjectId ''650000000000000000000b02'') blog = Some longPost"
  "findPost (ObjectId ''650000000000000000000bff'') blog = None"
  by (simp_all add: findPost_def blog_def hiWorld_def longPost_def)


section \<open>Editing and deleting comments\<close>

lemma updateComment_by_author:
  assumes cst: "castObjectId ident = Some i"
    and f: "findComment i d = Some c"
    and own: "user_id actor = c_author c"
    and ok: "trim s \<noteq> []" "c_authorName c \<noteq> []"
  shows "\<exists>body d'. updateComment actor ident (Some s) now d = (Response 200 body, d')
           \<and> map_option c_content (findComment (i) d') = Some (trim s)"
proof -
  let ?c1 = "c\<lparr>c_content := trim s\<rparr>"
  let ?saved = "if ?c1 = c then c else ?c1\<lparr>c_updatedAt := now\<rparr>"
  let ?d' = "d\<lparr>comments := updateFirst (\<lambda>q. comment_id q = comment_id c) (\<lambda>q. ?saved) (comments d)\<rparr>"
  have id: "comment_id c = i" using f by (rule findComment_id)
  have r: "updateComment actor ident (Some s) now d = (Response 200 (commentJson (users d) ?saved), ?d')"
    using cst f own ok by (simp add: updateComment_def validComment_def Let_def)
  have "find (\<lambda>q. comment_id q = i)
          (updateFirst (\<lambda>q. comment_id q = comment_id c) (\<lambda>q. ?saved) (comments d)) = Some ?saved"
    using f id by (intro find_updateFirst_hit[where x = c]) (auto simp: findComment_def)
  then have "findComment (i) ?d' = Some ?saved" by (simp add: findComment_def)
  moreover have "c_content ?saved = trim s" 
  proof (cases "?c1 = c")
    case True
    have "c_content ?c1 = c_content c" by (rule arg_cong[OF True])
    then have "c_content c = trim s" by simp
    then show ?thesis using True by simp
  next
    case False
    then show ?thesis by simp
  qed
  ultimately show ?thesis using r by auto
qed

text \<open>
  Claim C3. For every stored comment (found under the id the request's string casts to)
  and every actor whose id differs from the comment's author, whatever the actor's role (an admin included), \<open>updateComment\<close> answers 403
  and leaves the store as it was; an edit that succeeds was made by the author; and the
  author's edit with a content that is not blank succeeds and stores the trimmed content.
\<close>

theorem updateComment_only_by_author:
  assumes cst: "castObjectId ident = Some i"
    and f: "findComment i d = Some c"
  shows "(user_id actor \<noteq> c_author c \<longrightarrow>
            updateComment actor ident content now d
              = (Response 403 (message ''You can only edit your own comments''), d))
       \<and> (\<forall>body d'. updateComment actor ident content now d = (Response 200 body, d')
            \<longrightarrow> user_id actor = c_author c)
       \<and> (user_id actor = c_author c \<and> trim s \<noteq> [] \<and> c_authorName c \<noteq> [] \<longrightarrow>
            (\<exists>body d'. updateComment actor ident (Some s) now d = (Response 200 body, d')
               \<and> map_option c_content (findComment i d') = Some (trim s)))"
proof (intro conjI impI allI)
  assume "user_id actor \<noteq> c_author c"
  then show "updateComment actor ident content now d
              = (Response 403 (message ''You can only edit your own comments''), d)"
    using cst f by (simp add: updateComment_def toString_eq_iff)
next
  fix body d'
  assume "updateComment actor ident content now d = (Response 200 body, d')"
  then show "user_id actor = c_author c"
    using cst f by (auto simp add: updateComment_def toString_eq_iff Let_def split: if_splits)
next
  assume "user_id actor = c_author c \<and> trim s \<noteq> [] \<and> c_authorName c \<noteq> []"
  then show "\<exists>body d'. updateComment actor ident (Some s) now d = (Response 200 body, d')
               \<and> map_option c_content (findComment i d') = Some (trim s)"
    using updateComment_by_author[OF cst f, of actor s now] by blast
qed

theorem updateComment_only_by_author_witness:
  "castObjectId ''650000000000000000000c01'' = Some (ObjectId ''650000000000000000000c01'')
   \<and> findComment (ObjectId ''650000000000000000000c01'') blog = Some bobsComment
   \<and> u_role carol = ''admin'' \<and> user_id carol \<noteq> c_author bobsComment
   \<and> updateComment carol ''650000000000000000000c01'' (Some ''edited'') 40 blog
       = (Response 403 (message ''You can only edit your own comments''), blog)
   \<and> user_id alice \<noteq> c_author bobsComment
   \<and> updateComment alice ''650000000000000000000c01'' (Some ''edited'') 40 blog
       = (Response 403 (message ''You can only edit your own comments''), blog)
   \<and> user_id bob = c_author bobsComment \<and> trim '' edited '' = ''edited''
   \<and> map_option c_content (findComment (ObjectId ''650000000000000000000c01'')
        (snd (updateComment bob ''650000000000000000000c01'' (Some '' edited '') 40 blog)))
       = Some ''edited''"
proof -
  note f = findComment_blog(1)
  note cst = cast_blog(1)
  have a: "u_role carol = ''admin''" "user_id carol \<noteq> c_author bobsComment"
    "user_id alice \<noteq> c_author bobsComment" "user_id bob = c_author bobsComment"
    "c_authorName bobsComment \<noteq> []"
    by (simp_all add: carol_def alice_def bob_def bobsComment_def)
  have tr: "trim '' edited '' = ''edited''" by (simp add: trim_def isSpace_def)
  from updateComment_only_by_author[OF cst f, of carol "Some ''edited''" 40] a(2)
  have c1: "updateComment carol ''650000000000000000000c01'' (Some ''edited'') 40 blog
       = (Response 403 (message ''You can only edit your own comments''), blog)" by blast
  from updateComment_only_by_author[OF cst f, of alice "Some ''edited''" 40] a(3)
  have c2: "updateComment alice ''650000000000000000000c01'' (Some ''edited'') 40 blog
       = (Response 403 (message ''You can only edit your own comments''), blog)" by blast
  from updateComment_only_by_author[OF cst f, of bob None 40 "'' edited ''"] a(4,5) tr
  have c3: "map_option c_content (findComment (ObjectId ''650000000000000000000c01'')
        (snd (updateComment bob ''650000000000000000000c01'' (Some '' edited '') 40 blog)))
       = Some ''edited''" by fastforce
  from cst f a c1 c2 c3 tr show ?thesis by blast
qed

text \<open>
  Claim C4, as stated, fails: no comment has the id \<open>nope\<close>, yet deleting it does not
  answer 404. The cast of the id throws and the handler's \<open>catch\<close> answers 500.
\<close>

theorem deleteComment_malformed_id_counterexample:
  "''nope'' \<notin> toString ` comment_id ` set (comments blog)
   \<and> deleteComment carol ''nope'' blog
       = (Response 500 (message ''Error deleting comment''), blog)
   \<and> Response 500 (message ''Error deleting comment'')
       \<noteq> Response 404 (message ''Comment not found'')"
  by (simp add: deleteComment_def cast_blog blog_def bobsComment_def message_def)

text \<open>
  Claim C4, amended. For an id that is a well-formed ObjectId (24 hexadecimal digits, in
  either case): \<open>deleteComment\<close> answers 404 and changes nothing when no comment has
  the id; for the comment's author, and for every admin whether author or not, it answers
  200 and removes that comment (one comment fewer, the id no longer found when ids are
  unique, every other comment, the posts and the users untouched); for an actor who is
  neither the author nor an admin it answers 403 and changes nothing.
\<close>

theorem deleteComment_owner_or_admin:
  assumes cst: "castObjectId ident = Some i"
  shows "(findComment i d = None \<longrightarrow>
      deleteComment actor ident d = (Response 404 (message ''Comment not found''), d))
   \<and> (\<forall>c. findComment i d = Some c
          \<and> (user_id actor = c_author c \<or> u_role actor = ''admin'') \<longrightarrow>
        (\<exists>d'. deleteComment actor ident d
                = (Response 200 (message ''Comment deleted successfully''), d')
           \<and> Suc (length (comments d')) = length (comments d)
           \<and> (distinct (map comment_id (comments d)) \<longrightarrow> findComment i d' = None)
           \<and> (\<forall>j. j \<noteq> i \<longrightarrow> findComment j d' = findComment j d)
           \<and> posts d' = posts d \<and> users d' = users d))
   \<and> (\<forall>c. findComment i d = Some c
          \<and> user_id actor \<noteq> c_author c \<and> u_role actor \<noteq> ''admin'' \<longrightarrow>
        deleteComment actor ident d = (Response 403 (message ''Access denied''), d))"
proof (intro conjI impI allI)
  assume "findComment i d = None"
  then show "deleteComment actor ident d = (Response 404 (message ''Comment not found''), d)"
    using cst by (simp add: deleteComment_def)
next
  fix c
  assume a: "findComment i d = Some c
          \<and> (user_id actor = c_author c \<or> u_role actor = ''admin'')"
  let ?d' = "d\<lparr>comments := deleteFirst (\<lambda>q. comment_id q = i) (comments d)\<rparr>"
  have r: "deleteComment actor ident d
             = (Response 200 (message ''Comment deleted successfully''), ?d')"
    using a cst by (auto simp add: deleteComment_def Let_def toString_eq_iff)
  have l: "Suc (length (comments ?d')) = length (comments d)"
    using a length_deleteFirst[of "\<lambda>q. comment_id q = i" "comments d" c]
    by (simp add: findComment_def)
  have n: "distinct (map comment_id (comments d)) \<longrightarrow> findComment i ?d' = None"
    by (simp add: findComment_def find_deleteFirst_key_same)
  have o: "\<forall>j. j \<noteq> i \<longrightarrow> findComment j ?d' = findComment j d"
    by (simp add: findComment_def find_deleteFirst_key_other)
  show "\<exists>d'. deleteComment actor ident d
                = (Response 200 (message ''Comment deleted successfully''), d')
           \<and> Suc (length (comments d')) = length (comments d)
           \<and> (distinct (map comment_id (comments d)) \<longrightarrow> findComment i d' = None)
           \<and> (\<forall>j. j \<noteq> i \<longrightarrow> findComment j d' = findComment j d)
           \<and> posts d' = posts d \<and> users d' = users d"
    using r l n o by (intro exI[of _ ?d']) simp
next
  fix c
  assume "findComment i d = Some c
          \<and> user_id actor \<noteq> c_author c \<and> u_role actor \<noteq> ''admin''"
  then show "deleteComment actor ident d = (Response 403 (message ''Access denied''), d)"
    using cst by (auto simp add: deleteComment_def Let_def toString_eq_iff)
qed

theorem deleteComment_owner_or_admin_witness:
  "castObjectId ''650000000000000000000cff'' = Some (ObjectId ''650000000000000000000cff'')
   \<and> findComment (ObjectId ''650000000000000000000cff'') blog = None
   \<and> deleteComment carol ''650000000000000000000cff'' blog
       = (Response 404 (message ''Comment not found''), blog)
   \<and> castObjectId ''650000000000000000000c01'' = Some (ObjectId ''650000000000000000000c01'')
   \<and> findComment (ObjectId ''650000000000000000000c01'') blog = Some bobsComment
   \<and> user_id bob = c_author bobsComment \<and> u_role bob \<noteq> ''admin''
   \<and> fst (deleteComment bob ''650000000000000000000c01'' blog)
       = Response 200 (message ''Comment deleted successfully'')
   \<and> user_id carol \<noteq> c_author bobsComment \<and> u_role carol = ''admin''
   \<and> fst (deleteComment carol ''650000000000000000000c01'' blog)
       = Response 200 (message ''Comment deleted successfully'')
   \<and> distinct (map comment_id (comments blog))
   \<and> findComment (ObjectId ''650000000000000000000c01'')
        (snd (deleteComment carol ''650000000000000000000c01'' blog)) = None
   \<and> castObjectId ''650000000000000000000C01'' = Some (ObjectId ''650000000000000000000c01'')
   \<and> fst (deleteComment carol ''650000000000000000000C01'' blog)
       = Response 200 (message ''Comment deleted successfully'')
   \<and> findComment (ObjectId ''650000000000000000000c01'')
        (snd (deleteComment carol ''650000000000000000000C01'' blog)) = None
   \<and> user_id alice \<noteq> c_author bobsComment \<and> u_role alice \<noteq> ''admin''
   \<and> deleteComment alice ''650000000000000000000c01'' blog
       = (Response 403 (message ''Access denied''), blog)"
proof -
  note f = findComment_blog
  note k = cast_blog(1,2,3)
  have a: "user_id bob = c_author bobsComment" "u_role bob \<noteq> ''admin''"
    "user_id carol \<noteq> c_author bobsComment" "u_role carol = ''admin''"
    "user_id alice \<noteq> c_author bobsComment" "u_role alice \<noteq> ''admin''"
    by (simp_all add: alice_def bob_def carol_def bobsComment_def)
  have dist: "distinct (map comment_id (comments blog))" by (simp add: blog_def)
  from deleteComment_owner_or_admin[OF k(3), of blog carol] f(2)
  have c1: "deleteComment carol ''650000000000000000000cff'' blog
       = (Response 404 (message ''Comment not found''), blog)" by blast
  from deleteComment_owner_or_admin[OF k(1), of blog bob] f(1) a(1)
  have c2: "fst (deleteComment bob ''650000000000000000000c01'' blog)
       = Response 200 (message ''Comment deleted successfully'')" by fastforce
  from deleteComment_owner_or_admin[OF k(1), of blog carol] f(1) a(4) dist
  have c3: "fst (deleteComment carol ''650000000000000000000c01'' blog)
       = Response 200 (message ''Comment deleted successfully'')
     \<and> findComment (ObjectId ''650000000000000000000c01'')
        (snd (deleteComment carol ''650000000000000000000c01'' blog)) = None" by fastforce
  from deleteComment_owner_or_admin[OF k(2), of blog carol] f(1) a(4) dist
  have c5: "fst (deleteComment carol ''650000000000000000000C01'' blog)
       = Response 200 (message ''Comment deleted successfully'')
     \<and> findComment (ObjectId ''650000000000000000000c01'')
        (snd (deleteComment carol ''650000000000000000000C01'' blog)) = None" by fastforce
  from deleteComment_owner_or_admin[OF k(1), of blog alice] f(1) a(5,6)
  have c4: "deleteComment alice ''650000000000000000000c01'' blog
       = (Response 403 (message ''Access denied''), blog)" by blast
  from f k a dist c1 c2 c3 c4 c5 show ?thesis by blast
qed

section \<open>Creating comments\<close>

text \<open>
  Claim C5, as stated, fails: the post id \<open>nope\<close> matches no post and the content is
  not empty, yet the answer is not 404. The cast of the post id throws in the lookup and
  the handler's \<open>catch\<close> answers 500.
\<close>

theorem createComment_missing_post_counterexample:
  "''nope'' \<notin> toString ` post_id ` set (posts blog)
   \<and> truthy (Some ''Hello'')
   \<and> createComment alice (Some ''Hello'') (Some ''nope'')
        (ObjectId ''650000000000000000000c02'') 40 blog
       = (Response 500 (message ''Error creating comment''), blog)
   \<and> Response 500 (message ''Error creating comment'')
       \<noteq> Response 404 (message ''Post not found'')"
  by (simp add: createComment_def cast_blog blog_def hiWorld_def longPost_def message_def)

text \<open>
  Claim C5, amended. For every actor, every non-empty content and every post id that is a
  well-formed ObjectId (24 hexadecimal digits, in either case) and matches no stored post,
  \<open>createComment\<close> answers 404; and for such a post id the store is left as it was
  whatever the content, so no comment is created: the lookup of the post precedes the
  creation of the comment.
\<close>

theorem createComment_missing_post:
  assumes cst: "castObjectId postId = Some i"
    and f: "findPost i d = None"
  shows "(truthy content \<longrightarrow>
            createComment actor content (Some postId) newId now d
              = (Response 404 (message ''Post not found''), d))
       \<and> snd (createComment actor content (Some postId) newId now d) = d"
  using cst f castObjectId_nonempty[OF cst] by (auto simp add: createComment_def)

theorem createComment_missing_post_witness:
  "castObjectId ''650000000000000000000bff'' = Some (ObjectId ''650000000000000000000bff'')
   \<and> castObjectId ''650000000000000000000BFF'' = Some (ObjectId ''650000000000000000000bff'')
   \<and> findPost (ObjectId ''650000000000000000000bff'') blog = None
   \<and> truthy (Some ''Hello'')
   \<and> createComment alice (Some ''Hello'') (Some ''650000000000000000000bff'')
        (ObjectId ''650000000000000000000c02'') 40 blog
       = (Response 404 (message ''Post not found''), blog)
   \<and> createComment alice (Some ''Hello'') (Some ''650000000000000000000BFF'')
        (ObjectId ''650000000000000000000c02'') 40 blog
       = (Response 404 (message ''Post not found''), blog)
   \<and> comments (snd (createComment alice (Some ''Hello'') (Some ''650000000000000000000bff'')
        (ObjectId ''650000000000000000000c02'') 40 blog)) = [bobsComment]"
proof -
  note f = findPost_blog(3)
  note k = cast_blog(5,6)
  have t: "truthy (Some ''Hello'')" by simp
  note T1 = createComment_missing_post[OF k(1) f, of "Some ''Hello''" alice
              "ObjectId ''650000000000000000000c02''" 40]
  note T2 = createComment_missing_post[OF k(2) f, of "Some ''Hello''" alice
              "ObjectId ''650000000000000000000c02''" 40]
  from T1 t have c1: "createComment alice (Some ''Hello'') (Some ''650000000000000000000bff'')
        (ObjectId ''650000000000000000000c02'') 40 blog
       = (Response 404 (message ''Post not found''), blog)" by blast
  from T2 t have c2: "createComment alice (Some ''Hello'') (Some ''650000000000000000000BFF'')
        (ObjectId ''650000000000000000000c02'') 40 blog
       = (Response 404 (message ''Post not found''), blog)" by blast
  from T1 have "snd (createComment alice (Some ''Hello'') (Some ''650000000000000000000bff'')
        (ObjectId ''650000000000000000000c02'') 40 blog) = blog" by blast
  then have c3: "comments (snd (createComment alice (Some ''Hello'')
        (Some ''650000000000000000000bff'') (ObjectId ''650000000000000000000c02'') 40 blog))
       = [bobsComment]" by (simp add: blog_def)
  from f k t c1 c2 c3 show ?thesis by blast
qed

section \<open>Creating and updating posts\<close>

text \<open>
  Claim C6. \<open>createPost\<close> with an absent or empty title, or an absent or empty content,
  answers 400 for every actor, upload, id and time, and leaves the store as it was.
\<close>

theorem createPost_requires_title_and_content:
  assumes "title = None \<or> title = Some [] \<or> content = None \<or> content = Some []"
  shows "createPost actor title content file newId now d
           = (Response 400 (message ''Title and content are required''), d)"
  using assms by (auto simp add: createPost_def)

theorem createPost_requires_title_and_content_witness:
  "createPost alice (Some []) (Some ''Body'') None (ObjectId ''650000000000000000000b03'') 40 blog
     = (Response 400 (message ''Title and content are required''), blog)
   \<and> createPost alice (Some ''Title'') (Some []) (Some ''image-1.png'')
        (ObjectId ''650000000000000000000b03'') 40 blog
     = (Response 400 (message ''Title and content are required''), blog)
   \<and> posts (snd (createPost alice (Some ''Title'') (Some []) (Some ''image-1.png'')
        (ObjectId ''650000000000000000000b03'') 40 blog)) = [hiWorld, longPost]"
proof -
  have c1: "createPost alice (Some []) (Some ''Body'') None
      (ObjectId ''650000000000000000000b03'') 40 blog
     = (Response 400 (message ''Title and content are required''), blog)"
    by (rule createPost_requires_title_and_content) simp
  have c2: "createPost alice (Some ''Title'') (Some []) (Some ''image-1.png'')
        (ObjectId ''650000000000000000000b03'') 40 blog
     = (Response 400 (message ''Title and content are required''), blog)"
    by (rule createPost_requires_title_and_content) simp
  from c2 have c3: "posts (snd (createPost alice (Some ''Title'') (Some []) (Some ''image-1.png'')
        (ObjectId ''650000000000000000000b03'') 40 blog)) = [hiWorld, longPost]"
    by (simp add: blog_def)
  from c1 c2 c3 show ?thesis by blast
qed

lemma updatePost_authorised:
  assumes cst: "castObjectId ident = Some i"
    and f: "findPost i d = Some p"
    and auth: "user_id actor = p_author p \<or> u_role actor = ''admin''"
  shows "\<exists>q. updatePost actor ident title content file now d
             = (Response 200 (postJson q),
                d\<lparr>posts := updateFirst (\<lambda>x. post_id x = i) (\<lambda>x. q) (posts d)\<rparr>)
       \<and> p_title q = (case title of None \<Rightarrow> p_title p | Some t \<Rightarrow> if t = [] then p_title p else t)
       \<and> p_content q
           = (case content of None \<Rightarrow> p_content p | Some c \<Rightarrow> if c = [] then p_content p else c)
       \<and> p_image q = (case file of None \<Rightarrow> p_image p | Some filename \<Rightarrow> ''/uploads/'' @ filename)
       \<and> post_id q = post_id p \<and> p_author q = p_author p \<and> p_authorName q = p_authorName p
       \<and> p_createdAt q = p_createdAt p
       \<and> (p_updatedAt q = p_updatedAt p \<or> p_updatedAt q = now)"
proof -
  define p1 where "p1 = (if truthy title then p\<lparr>p_title := the title\<rparr> else p)"
  define p2 where "p2 = (if truthy content then p1\<lparr>p_content := the content\<rparr> else p1)"
  define p3 where "p3 = (case file of Some filename \<Rightarrow> p2\<lparr>p_image := ''/uploads/'' @ filename\<rparr>
                         | None \<Rightarrow> p2)"
  define q where "q = (if p3 = p then p else p3\<lparr>p_updatedAt := now\<rparr>)"
  have id: "post_id p = i" using f by (rule findPost_id)
  have "updatePost actor ident title content file now d
          = (let p1 = (if truthy title then p\<lparr>p_title := the title\<rparr> else p);
                 p2 = (if truthy content then p1\<lparr>p_content := the content\<rparr> else p1);
                 p3 = (case file of Some filename \<Rightarrow> p2\<lparr>p_image := ''/uploads/'' @ filename\<rparr>
                       | None \<Rightarrow> p2);
                 saved = (if p3 = p then p else p3\<lparr>p_updatedAt := now\<rparr>)
             in (Response 200 (postJson saved),
                 d\<lparr>posts := updateFirst (\<lambda>x. post_id x = i) (\<lambda>x. saved) (posts d)\<rparr>))"
    using cst f auth id by (auto simp add: updatePost_def Let_def toString_eq_iff)
  then have r: "updatePost actor ident title content file now d
          = (Response 200 (postJson q),
             d\<lparr>posts := updateFirst (\<lambda>x. post_id x = i) (\<lambda>x. q) (posts d)\<rparr>)"
    unfolding Let_def p1_def p2_def p3_def q_def .
  have t1: "p_title p1 = (case title of None \<Rightarrow> p_title p | Some t \<Rightarrow> if t = [] then p_title p else t)"
    and k1: "post_id p1 = post_id p" "p_author p1 = p_author p" "p_authorName p1 = p_authorName p"
      "p_createdAt p1 = p_createdAt p" "p_updatedAt p1 = p_updatedAt p" "p_content p1 = p_content p"
      "p_image p1 = p_image p"
    by (auto simp add: p1_def split: option.splits)
  have t2: "p_content p2 = (case content of None \<Rightarrow> p_content p | Some c \<Rightarrow> if c = [] then p_content p else c)"
    and k2: "post_id p2 = post_id p" "p_author p2 = p_author p" "p_authorName p2 = p_authorName p"
      "p_createdAt p2 = p_createdAt p" "p_updatedAt p2 = p_updatedAt p" "p_title p2 = p_title p1"
      "p_image p2 = p_image p"
    by (auto simp add: p2_def k1 split: option.splits)
  have t3: "p_image p3 = (case file of None \<Rightarrow> p_image p | Some filename \<Rightarrow> ''/uploads/'' @ filename)"
    and k3: "post_id p3 = post_id p" "p_author p3 = p_author p" "p_authorName p3 = p_authorName p"
      "p_createdAt p3 = p_createdAt p" "p_updatedAt p3 = p_updatedAt p" "p_title p3 = p_title p1"
      "p_content p3 = p_content p2"
    by (auto simp add: p3_def k2 split: option.splits)
  have "q = p3 \<or> q = p3\<lparr>p_updatedAt := now\<rparr>" by (auto simp add: q_def)
  then have kq: "post_id q = post_id p" "p_author q = p_author p" "p_authorName q = p_authorName p"
      "p_createdAt q = p_createdAt p" "p_title q = p_title p3" "p_content q = p_content p3"
      "p_image q = p_image p3" "p_updatedAt q = p_updatedAt p \<or> p_updatedAt q = now"
    using k3 by auto
  show ?thesis using r t1 t2 t3 k3 kq by (intro exI[of _ q]) simp
qed

text \<open>
  Claim C7. When the owner or an admin updates a stored post (found under the id the
  request's string casts to), the answer is 200 with the
  saved post \<open>q\<close>; \<open>q\<close> is what the store then holds under the id; its title and
  content are the supplied ones when supplied and non-empty and the previous ones otherwise
  (an empty string counts as not supplied); its image is the uploaded file's path when a
  file was uploaded and the previous image otherwise; id, author, author name and creation
  time are the previous ones; every other post, the users and the comments are untouched.
\<close>

theorem updatePost_partial_update:
  assumes cst: "castObjectId ident = Some i"
    and f: "findPost i d = Some p"
    and auth: "user_id actor = p_author p \<or> u_role actor = ''admin''"
  shows "\<exists>q d'. updatePost actor ident title content file now d = (Response 200 (postJson q), d')
       \<and> findPost (i) d' = Some q
       \<and> p_title q = (case title of None \<Rightarrow> p_title p | Some t \<Rightarrow> if t = [] then p_title p else t)
       \<and> p_content q
           = (case content of None \<Rightarrow> p_content p | Some c \<Rightarrow> if c = [] then p_content p else c)
       \<and> p_image q = (case file of None \<Rightarrow> p_image p | Some filename \<Rightarrow> ''/uploads/'' @ filename)
       \<and> post_id q = post_id p \<and> p_author q = p_author p \<and> p_authorName q = p_authorName p
       \<and> p_createdAt q = p_createdAt p
       \<and> (p_updatedAt q = p_updatedAt p \<or> p_updatedAt q = now)
       \<and> (\<forall>j. j \<noteq> i \<longrightarrow> findPost j d' = findPost j d)
       \<and> users d' = users d \<and> comments d' = comments d"
proof -
  from updatePost_authorised[OF cst f auth, of title content "file" now]
  obtain q where
    r: "updatePost actor ident title content file now d
          = (Response 200 (postJson q),
             d\<lparr>posts := updateFirst (\<lambda>x. post_id x = i) (\<lambda>x. q) (posts d)\<rparr>)"
    and fields: "p_title q = (case title of None \<Rightarrow> p_title p | Some t \<Rightarrow> if t = [] then p_title p else t)"
      "p_content q = (case content of None \<Rightarrow> p_content p | Some c \<Rightarrow> if c = [] then p_content p else c)"
      "p_image q = (case file of None \<Rightarrow> p_image p | Some filename \<Rightarrow> ''/uploads/'' @ filename)"
      "post_id q = post_id p" "p_author q = p_author p" "p_authorName q = p_authorName p"
      "p_createdAt q = p_createdAt p" "p_updatedAt q = p_updatedAt p \<or> p_updatedAt q = now"
    by blast
  let ?d' = "d\<lparr>posts := updateFirst (\<lambda>x. post_id x = i) (\<lambda>x. q) (posts d)\<rparr>"
  have id: "post_id q = i" using fields(4) findPost_id[OF f] by simp
  have "find (\<lambda>x. post_id x = i)
          (updateFirst (\<lambda>x. post_id x = i) (\<lambda>x. q) (posts d)) = Some q"
    using f id findPost_id[OF f]
    by (intro find_updateFirst_hit[where x = p]) (simp_all add: findPost_def)
  then have fq: "findPost (i) ?d' = Some q" by (simp add: findPost_def)
  have oth: "\<forall>j. j \<noteq> i \<longrightarrow> findPost j ?d' = findPost j d"
    using id by (simp add: findPost_def find_updateFirst_key_other)
  show ?thesis
    using r fq fields oth by (intro exI[of _ q] exI[of _ ?d']) simp
qed

theorem updatePost_partial_update_witness:
  "castObjectId ''650000000000000000000b01'' = Some (ObjectId ''650000000000000000000b01'')
   \<and> findPost (ObjectId ''650000000000000000000b01'') blog = Some hiWorld
   \<and> u_role carol = ''admin''
   \<and> fst (updatePost carol ''650000000000000000000b01'' (Some []) (Some ''New'') None 40 blog)
       = Response 200 (postJson (hiWorld\<lparr>p_content := ''New'', p_updatedAt := 40\<rparr>))
   \<and> findPost (ObjectId ''650000000000000000000b01'')
        (snd (updatePost carol ''650000000000000000000b01'' (Some []) (Some ''New'') None 40 blog))
       = Some (hiWorld\<lparr>p_content := ''New'', p_updatedAt := 40\<rparr>)
   \<and> p_title (hiWorld\<lparr>p_content := ''New'', p_updatedAt := 40\<rparr>) = ''Hi''
   \<and> findPost (ObjectId ''650000000000000000000b02'')
        (snd (updatePost carol ''650000000000000000000b01'' (Some []) (Some ''New'') None 40 blog))
       = Some longPost"
proof -
  note f = findPost_blog
  note cst = cast_blog(4)
  have a: "u_role carol = ''admin''" by (simp add: carol_def)
  then have a': "user_id carol = p_author hiWorld \<or> u_role carol = ''admin''" by blast
  from updatePost_partial_update[OF cst f(1) a', of "Some []" "Some ''New''" None 40]
  obtain q d' where
    r: "updatePost carol ''650000000000000000000b01'' (Some []) (Some ''New'') None 40 blog
          = (Response 200 (postJson q), d')"
    and fq: "findPost (ObjectId ''650000000000000000000b01'') d' = Some q"
    and t: "p_title q = p_title hiWorld" and c: "p_content q = ''New''"
    and i: "p_image q = p_image hiWorld"
    and k: "post_id q = post_id hiWorld" "p_author q = p_author hiWorld"
      "p_authorName q = p_authorName hiWorld" "p_createdAt q = p_createdAt hiWorld"
    and o: "\<forall>j. j \<noteq> ObjectId ''650000000000000000000b01'' \<longrightarrow> findPost j d' = findPost j blog"
    by auto
  have u: "p_updatedAt q = 40"
    using r by (auto simp add: updatePost_def cst f(1) Let_def carol_def hiWorld_def postJson_def)
  have q: "q = hiWorld\<lparr>p_content := ''New'', p_updatedAt := 40\<rparr>"
    using t c i k u by (cases q) (simp add: hiWorld_def)
  have o2: "findPost (ObjectId ''650000000000000000000b02'') d' = Some longPost"
    using o f(2) by simp
  have "p_title (hiWorld\<lparr>p_content := ''New'', p_updatedAt := 40\<rparr>) = ''Hi''"
    by (simp add: hiWorld_def)
  with cst f(1) a r fq q o2 show ?thesis by simp
qed

section \<open>The author of a post\<close>

lemma posts_createComment: "posts (snd (createComment actor content postId newId now d)) = posts d"
  by (simp add: createComment_def Let_def split: option.splits)

lemma posts_updateComment: "posts (snd (updateComment actor ident content now d)) = posts d"
  by (simp add: updateComment_def Let_def split: option.splits)

lemma posts_deleteComment: "posts (snd (deleteComment actor ident d)) = posts d"
  by (simp add: deleteComment_def Let_def split: option.splits)

lemma posts_createAdmin: "posts (snd (createAdmin h email username password newId d)) = posts d"
  by (simp add: createAdmin_def split: option.splits)

lemma posts_createPost:
  "posts (snd (createPost actor title content file newId now d)) = posts d
   \<or> (\<exists>q. posts (snd (createPost actor title content file newId now d)) = posts d @ [q])"
  by (simp add: createPost_def Let_def)

lemma posts_deletePost:
  "posts (snd (deletePost actor ident d)) = posts d
   \<or> (\<exists>j. posts (snd (deletePost actor ident d))
             = deleteFirst (\<lambda>q. post_id q = j) (posts d))"
  by (auto simp add: deletePost_def Let_def split: option.splits)

lemma updatePost_refused:
  "castObjectId ident = None
   \<or> (\<exists>j. castObjectId ident = Some j \<and>
        (findPost j d = None
         \<or> (\<exists>p. findPost j d = Some p \<and> user_id actor \<noteq> p_author p
                \<and> u_role actor \<noteq> ''admin'')))
   \<Longrightarrow> snd (updatePost actor ident title content file now d) = d"
  by (auto simp add: updatePost_def Let_def toString_eq_iff)

lemma updatePost_keeps_author:
  assumes f: "findPost i d = Some p"
  shows "\<exists>q. findPost i (snd (updatePost actor ident title content file now d)) = Some q
           \<and> p_author q = p_author p"
proof (cases "castObjectId ident")
  case None
  then show ?thesis using f updatePost_refused[of ident d actor title content "file" now] by simp
next
  case cst: (Some j)
  show ?thesis
  proof (cases "findPost j d")
    case None
    then show ?thesis
      using f cst updatePost_refused[of ident d actor title content "file" now] by simp
  next
    case (Some p0)
    show ?thesis
    proof (cases "user_id actor = p_author p0 \<or> u_role actor = ''admin''")
      case False
      then show ?thesis
        using f cst Some updatePost_refused[of ident d actor title content "file" now] by simp
    next
      case True
      from updatePost_authorised[OF cst Some True, of title content "file" now]
      obtain q where r: "updatePost actor ident title content file now d
            = (Response 200 (postJson q),
               d\<lparr>posts := updateFirst (\<lambda>x. post_id x = j) (\<lambda>x. q) (posts d)\<rparr>)"
        and k: "post_id q = post_id p0" and a: "p_author q = p_author p0"
        by blast
      have id: "post_id q = j" using k findPost_id[OF Some] by simp
      show ?thesis
      proof (cases "i = j")
        case True
        have "find (\<lambda>x. post_id x = j)
                (updateFirst (\<lambda>x. post_id x = j) (\<lambda>x. q) (posts d)) = Some q"
          using Some id findPost_id[OF Some]
          by (intro find_updateFirst_hit[where x = p0]) (simp_all add: findPost_def)
        then show ?thesis
          using True r a f Some by (simp add: findPost_def)
      next
        case False
        then show ?thesis
          using r f id by (simp add: findPost_def find_updateFirst_key_other)
      qed
    qed
  qed
qed

text \<open>
  Claim C9. In a store with unique post ids, whatever operation of the service runs
  (any route of the two routers with any arguments, or the admin bootstrap), a post that
  is still stored afterwards has the author it had before; and after \<open>updatePost\<close>, by
  any actor and with any combination of fields, the post is still stored with its author.
\<close>

theorem post_author_immutable:
  assumes wf: "distinct (map post_id (posts d))" and f: "findPost i d = Some p"
  shows "(\<forall>p'. findPost i (step h op d) = Some p' \<longrightarrow> p_author p' = p_author p)
       \<and> (\<exists>q. findPost i (snd (updatePost actor ident title content file now d)) = Some q
              \<and> p_author q = p_author p)"
proof (intro conjI allI impI)
  show "\<exists>q. findPost i (snd (updatePost actor ident title content file now d)) = Some q
              \<and> p_author q = p_author p"
    using f by (rule updatePost_keeps_author)
next
  fix p' assume s: "findPost i (step h op d) = Some p'"
  have same: "posts (step h op d) = posts d \<Longrightarrow> p_author p' = p_author p"
    using s f by (simp add: findPost_def)
  show "p_author p' = p_author p"
  proof (cases op)
    case (ListComments x) then show ?thesis using same by simp
  next
    case (CreateComment a b c e g) then show ?thesis using same by (simp add: posts_createComment)
  next
    case (UpdateComment a b c e) then show ?thesis using same by (simp add: posts_updateComment)
  next
    case (DeleteComment a b) then show ?thesis using same by (simp add: posts_deleteComment)
  next
    case (ListPosts x) then show ?thesis using same by simp
  next
    case (GetPost a b) then show ?thesis using same by simp
  next
    case (CreatePost a t c u n w)
    then show ?thesis
      using posts_createPost[of a t c u n w d] s f
      by (auto simp add: findPost_def find_append_first)
  next
    case (UpdatePost a b t c u w)
    then show ?thesis
      using updatePost_keeps_author[OF f, of a b t c u w] s by simp
  next
    case (DeletePost a b)
    from posts_deletePost[of a b d]
    consider "posts (snd (deletePost a b d)) = posts d"
      | j where "posts (snd (deletePost a b d)) = deleteFirst (\<lambda>q. post_id q = j) (posts d)"
      by blast
    then show ?thesis
    proof cases
      case 1
      then show ?thesis using same DeletePost by simp
    next
      case (2 j)
      show ?thesis
      proof (cases "i = j")
        case True
        then show ?thesis
          using 2 s f wf DeletePost
          by (auto simp add: findPost_def find_deleteFirst_key_same)
      next
        case False
        then show ?thesis
          using 2 s f DeletePost
          by (auto simp add: findPost_def find_deleteFirst_key_other)
      qed
    qed
  next
    case (CreateAdmin a b c e) then show ?thesis using same by (simp add: posts_createAdmin)
  qed
qed

theorem post_author_immutable_witness:
  "distinct (map post_id (posts blog))
   \<and> findPost (ObjectId ''650000000000000000000b01'') blog = Some hiWorld
   \<and> findPost (ObjectId ''650000000000000000000b01'')
        (step exampleHash
           (UpdatePost carol ''650000000000000000000b01'' (Some ''Retitled'') None None 40) blog)
       = Some (hiWorld\<lparr>p_title := ''Retitled'', p_updatedAt := 40\<rparr>)
   \<and> p_author (hiWorld\<lparr>p_title := ''Retitled'', p_updatedAt := 40\<rparr>) = p_author hiWorld
   \<and> map_option p_author (findPost (ObjectId ''650000000000000000000b01'')
        (snd (updatePost alice ''650000000000000000000b01'' None (Some ''Changed'')
               (Some ''image-7.png'') 41 blog)))
       = Some (ObjectId ''650000000000000000000a01'')"
proof -
  have wf: "distinct (map post_id (posts blog))"
    by (simp add: blog_def hiWorld_def longPost_def)
  note f = findPost_blog(1)
  note T = post_author_immutable[OF wf f, of exampleHash
      "UpdatePost carol ''650000000000000000000b01'' (Some ''Retitled'') None None 40"
      alice "''650000000000000000000b01''" None "Some ''Changed''" "Some ''image-7.png''" 41]
  have s: "findPost (ObjectId ''650000000000000000000b01'')
        (step exampleHash
           (UpdatePost carol ''650000000000000000000b01'' (Some ''Retitled'') None None 40) blog)
       = Some (hiWorld\<lparr>p_title := ''Retitled'', p_updatedAt := 40\<rparr>)"
    by (simp add: updatePost_def cast_blog(4) f Let_def carol_def)
       (simp add: findPost_def blog_def hiWorld_def longPost_def)
  from T s have c1: "p_author (hiWorld\<lparr>p_title := ''Retitled'', p_updatedAt := 40\<rparr>)
      = p_author hiWorld" by blast
  from T have c2: "map_option p_author (findPost (ObjectId ''650000000000000000000b01'')
        (snd (updatePost alice ''650000000000000000000b01'' None (Some ''Changed'')
               (Some ''image-7.png'') 41 blog)))
       = Some (p_author hiWorld)" by fastforce
  have "p_author hiWorld = ObjectId ''650000000000000000000a01''" by (simp add: hiWorld_def)
  with wf f s c1 c2 show ?thesis by simp
qed

section \<open>Running the admin bootstrap twice\<close>








end
